theory Spec2Isabelle
  imports Complex_Main "HOL-Library.Sublist" "HOL-Library.Log_Nat"
begin

section \<open>Severity levels and the level parser\<close>

text \<open>
  \<^verbatim>\<open>zapcore.Level\<close> is a signed 8-bit integer. The constants that
  \<^verbatim>\<open>observer.go\<close> names through the \<^verbatim>\<open>zap\<close> package are declared in
  \<^verbatim>\<open>go.uber.org/zap/zapcore/level.go\<close> as
  \<^verbatim>\<open>DebugLevel Level = iota - 1; InfoLevel; WarnLevel; ErrorLevel; DPanicLevel; PanicLevel; FatalLevel\<close>.
  No arithmetic is done on levels here, so they are integers.
\<close>

type_synonym Level = int

definition DebugLevel :: Level where "DebugLevel = - 1"
definition InfoLevel :: Level where "InfoLevel = 0"
definition WarnLevel :: Level where "WarnLevel = 1"
definition ErrorLevel :: Level where "ErrorLevel = 2"
definition DPanicLevel :: Level where "DPanicLevel = 3"
definition PanicLevel :: Level where "PanicLevel = 4"
definition FatalLevel :: Level where "FatalLevel = 5"

text \<open>
  \<^verbatim>\<open>strings.ToUpper\<close> reads a Go string as its sequence of Unicode code points and maps
  each one with \<^verbatim>\<open>unicode.ToUpper\<close>. A string is therefore a list of code points here.
  On ASCII the mapping moves \<open>a..z\<close> to \<open>A..Z\<close> and leaves everything else alone. Two
  code points outside ASCII have an ASCII upper-case form in Go's case tables:
  U+0131 (dotless i, delta -232) becomes \<open>I\<close> and U+017F (long s, delta -300) becomes \<open>S\<close>.
  The rest of the table belongs to the Go distribution and is the parameter \<open>tbl\<close>.
  A byte that is not valid UTF-8 is read as U+FFFD, a code point outside ASCII like any
  other.
\<close>

type_synonym rune = nat
type_synonym gostring = "rune list"
type_synonym error = gostring

abbreviation runes :: "string \<Rightarrow> gostring" where
  "runes \<equiv> map of_char"

definition unicode_ToUpper :: "(rune \<Rightarrow> rune) \<Rightarrow> rune \<Rightarrow> rune" where
  "unicode_ToUpper tbl r =
     (if r < 128 then (if 97 \<le> r \<and> r \<le> 122 then r - 32 else r)
      else if r = 305 then 73
      else if r = 383 then 83
      else tbl r)"

definition strings_ToUpper :: "(rune \<Rightarrow> rune) \<Rightarrow> gostring \<Rightarrow> gostring" where
  "strings_ToUpper tbl s = map (unicode_ToUpper tbl) s"

text \<open>
  The Go function returns the pair (level, error); a \<^verbatim>\<open>nil\<close> error is \<open>None\<close>, and
  the error made by \<^verbatim>\<open>fmt.Errorf\<close> is its message.
\<close>

definition ZapLogLevelFromString :: "(rune \<Rightarrow> rune) \<Rightarrow> gostring \<Rightarrow> Level \<times> error option" where
  "ZapLogLevelFromString tbl logLevel =
     (let u = strings_ToUpper tbl logLevel in
      if u = runes ''DEBUG'' then (DebugLevel, None)
      else if u = runes ''INFO'' then (InfoLevel, None)
      else if u = runes ''WARNING'' then (WarnLevel, None)
      else if u = runes ''ERROR'' then (ErrorLevel, None)
      else if u = runes ''FATAL'' then (FatalLevel, None)
      else if u = runes ''PANIC'' then (PanicLevel, None)
      else (- 1, Some (runes ''unknown log level: '' @ logLevel)))"

text \<open>
  The six names with the level the specification gives each. A string is a case variant
  of a name when it has the name's length and at every position the name's capital letter
  or the small letter of it, as in \<open>debug\<close>, \<open>DEBUG\<close>, \<open>Debug\<close>.
\<close>

definition level_names :: "(gostring \<times> Level) list" where
  "level_names =
     [(runes ''DEBUG'', DebugLevel), (runes ''INFO'', InfoLevel), (runes ''WARNING'', WarnLevel),
      (runes ''ERROR'', ErrorLevel), (runes ''FATAL'', FatalLevel), (runes ''PANIC'', PanicLevel)]"

definition letter_variant :: "rune \<Rightarrow> rune \<Rightarrow> bool" where
  "letter_variant c u = (c = u \<or> c = u + 32)"

definition case_variant :: "gostring \<Rightarrow> gostring \<Rightarrow> bool" where
  "case_variant s name = list_all2 letter_variant s name"

text \<open>
  What the parser itself takes for a name, read off \<^verbatim>\<open>strings.ToUpper\<close>: at every
  position a code point whose upper-case form is the name's capital letter, which besides
  the two ASCII letters is U+0131 for \<open>I\<close> and U+017F for \<open>S\<close>. And a string with every
  dotless i replaced by the letter \<open>i\<close>.
\<close>

definition matches_letter :: "rune \<Rightarrow> rune \<Rightarrow> bool" where
  "matches_letter c u = (c = u \<or> c = u + 32 \<or> (u = 73 \<and> c = 305) \<or> (u = 83 \<and> c = 383))"

definition matches_name :: "gostring \<Rightarrow> gostring \<Rightarrow> bool" where
  "matches_name s name = list_all2 matches_letter s name"

definition undot :: "gostring \<Rightarrow> gostring" where
  "undot s = map (\<lambda>c. if c = 305 then 105 else c) s"

definition capital_word :: "gostring \<Rightarrow> bool" where
  "capital_word name = list_all (\<lambda>u. 65 \<le> u \<and> u \<le> 90) name"

definition nonascii_stays :: "(rune \<Rightarrow> rune) \<Rightarrow> bool" where
  "nonascii_stays tbl = (\<forall>r. 128 \<le> r \<longrightarrow> 128 \<le> tbl r)"

section \<open>Binary floating point, as far as the time encoders use it\<close>

text \<open>
  A finite \<^verbatim>\<open>float64\<close> is a significand of at most 53 bits times a power of two.
  Conversion from \<^verbatim>\<open>int64\<close> and division round the exact result to the nearest such
  number, ties to the even significand. The exponent range is left out: the values met here
  lie between one billionth and \<open>2\<^sup>6\<^sup>3\<close> in magnitude, far from overflow and from the
  subnormal numbers; and no divisor here is zero.
\<close>

datatype float64 = Float64 (significand: int) (exponent: int)

definition float64_value :: "float64 \<Rightarrow> rat" where
  "float64_value f =
     (if 0 \<le> exponent f then of_int (significand f) * 2 ^ nat (exponent f)
      else of_int (significand f) / 2 ^ nat (- exponent f))"

definition round_half_even :: "int \<Rightarrow> int \<Rightarrow> int" where
  \<comment> \<open>the integer nearest to \<open>num / den\<close>, for \<open>0 \<le> num\<close> and \<open>0 < den\<close>\<close>
  "round_half_even num den =
     (let q = num div den; r = num mod den
      in if 2 * r < den then q else if den < 2 * r then q + 1
         else if even q then q else q + 1)"

definition scale2 :: "int \<Rightarrow> int \<Rightarrow> int \<Rightarrow> int \<times> int" where
  \<comment> \<open>the fraction \<open>a / den\<close> times \<open>2\<^sup>k\<close>, again as a fraction\<close>
  "scale2 a den k = (if 0 \<le> k then (a * 2 ^ nat k, den) else (a, den * 2 ^ nat (- k)))"

definition float64_of_ratio :: "int \<Rightarrow> int \<Rightarrow> int \<Rightarrow> float64" where
  \<comment> \<open>the \<^verbatim>\<open>float64\<close> nearest to \<open>(num / den) * 2\<^sup>e\<close>, for \<open>0 < den\<close>: the fraction is
      scaled until it lies between \<open>2\<^sup>5\<^sup>2\<close> and \<open>2\<^sup>5\<^sup>3\<close>, then rounded to an integer\<close>
  "float64_of_ratio num den e =
     (if num = 0 then Float64 0 0
      else let a = \<bar>num\<bar>;
               k0 = 53 - (bitlen a - bitlen den);
               k = (if fst (scale2 a den k0) < 2 ^ 53 * snd (scale2 a den k0) then k0 else k0 - 1);
               m = round_half_even (fst (scale2 a den k)) (snd (scale2 a den k))
           in Float64 (sgn num * m) (e - k))"

definition float64_of_int64 :: "int \<Rightarrow> float64" where
  "float64_of_int64 n = float64_of_ratio n 1 0"

definition float64_div :: "float64 \<Rightarrow> float64 \<Rightarrow> float64" where
  "float64_div a b =
     float64_of_ratio (significand a * sgn (significand b)) \<bar>significand b\<bar>
       (exponent a - exponent b)"

definition math_Trunc :: "float64 \<Rightarrow> float64" where
  "math_Trunc f =
     (if 0 \<le> exponent f then f
      else Float64 (sgn (significand f) * (\<bar>significand f\<bar> div 2 ^ nat (- exponent f))) 0)"

definition int64_of_float64 :: "float64 \<Rightarrow> int" where
  \<comment> \<open>the conversion \<^verbatim>\<open>int64(f)\<close> drops the fraction; the values here are within range\<close>
  "int64_of_float64 f =
     (if 0 \<le> exponent f then significand f * 2 ^ nat (exponent f)
      else sgn (significand f) * (\<bar>significand f\<bar> div 2 ^ nat (- exponent f)))"

section \<open>Times and layouts\<close>

text \<open>
  A \<^verbatim>\<open>time.Time\<close> is an instant, in nanoseconds since the Unix epoch as
  \<^verbatim>\<open>UnixNano\<close> returns it, with the offset in seconds of its location east of UTC,
  from which \<^verbatim>\<open>Format\<close> takes the wall clock. The record stands for the instants
  whose nanoseconds fit 64 bits, the years 1678 to 2262: outside them \<^verbatim>\<open>UnixNano\<close>
  overflows and no longer tells the wall clock.
\<close>

record Time =
  UnixNano :: int
  zoneOffset :: int

definition time_Millisecond :: int where "time_Millisecond = 1000000"
definition time_Second :: int where "time_Second = 1000000000"

definition secondOfDay :: "Time \<Rightarrow> nat" where
  "secondOfDay t = nat ((UnixNano t div time_Second + zoneOffset t) mod 86400)"

definition Hour :: "Time \<Rightarrow> nat" where "Hour t = secondOfDay t div 3600"
definition Minute :: "Time \<Rightarrow> nat" where "Minute t = secondOfDay t mod 3600 div 60"
definition Second :: "Time \<Rightarrow> nat" where "Second t = secondOfDay t mod 60"

definition digit :: "nat \<Rightarrow> char" where
  "digit n = ''0123456789'' ! (n mod 10)"

definition pad2 :: "nat \<Rightarrow> string" where
  "pad2 n = [digit (n div 10), digit n]"

definition hour12 :: "nat \<Rightarrow> nat" where
  "hour12 h = (if h mod 12 = 0 then 12 else h mod 12)"

text \<open>
  \<^verbatim>\<open>Time.Format\<close> on the chunks of Go's layout language that the layouts of this
  package are made of: \<^verbatim>\<open>15\<close> is the hour of the day from 00 to 23,
  \<^verbatim>\<open>04\<close> the minute, \<^verbatim>\<open>05\<close> the second, \<^verbatim>\<open>PM\<close> the mark AM or PM;
  \<^verbatim>\<open>03\<close>, the hour from 01 to 12, is there for comparison. Any other character is
  copied.
\<close>

fun time_Format :: "string \<Rightarrow> Time \<Rightarrow> string" where
  "time_Format [] t = []"
| "time_Format [c] t = [c]"
| "time_Format (c # d # l) t =
     (if [c, d] = ''15'' then pad2 (Hour t) @ time_Format l t
      else if [c, d] = ''03'' then pad2 (hour12 (Hour t)) @ time_Format l t
      else if [c, d] = ''04'' then pad2 (Minute t) @ time_Format l t
      else if [c, d] = ''05'' then pad2 (Second t) @ time_Format l t
      else if [c, d] = ''PM'' then (if 12 \<le> Hour t then ''PM'' else ''AM'') @ time_Format l t
      else c # time_Format (d # l) t)"

section \<open>Encoders\<close>

datatype PrimitiveArrayEncoder = AppendInt64 int | AppendFloat64 float64 | AppendString string

datatype LevelEncoder = LowercaseLevelEncoder | CapitalColorLevelEncoder

datatype DurationEncoder = SecondsDurationEncoder

text \<open>
  Of \<^verbatim>\<open>zapcore.EncoderConfig\<close>, the fields that this package sets or that the
  properties below read; \<^verbatim>\<open>zap.NewProductionEncoderConfig\<close> gives their defaults.
\<close>

record EncoderConfig =
  MessageKey :: string
  LevelKey :: string
  TimeKey :: string
  StacktraceKey :: string
  EncodeLevel :: LevelEncoder
  EncodeTime :: "Time \<Rightarrow> PrimitiveArrayEncoder"
  EncodeDuration :: DurationEncoder
  ConsoleSeparator :: string

definition EpochTimeEncoder :: "Time \<Rightarrow> PrimitiveArrayEncoder" where
  "EpochTimeEncoder t =
     AppendFloat64 (float64_div (float64_of_int64 (UnixNano t)) (float64_of_int64 time_Second))"

definition TimeEncoderOfLayout :: "string \<Rightarrow> Time \<Rightarrow> PrimitiveArrayEncoder" where
  "TimeEncoderOfLayout layout t = AppendString (time_Format layout t)"

definition NewProductionEncoderConfig :: EncoderConfig where
  "NewProductionEncoderConfig =
     \<lparr>MessageKey = ''msg'', LevelKey = ''level'', TimeKey = ''ts'', StacktraceKey = ''stacktrace'',
      EncodeLevel = LowercaseLevelEncoder, EncodeTime = EpochTimeEncoder,
      EncodeDuration = SecondsDurationEncoder, ConsoleSeparator = []\<rparr>"

definition zapBaseEncoderConfig :: EncoderConfig where
  "zapBaseEncoderConfig =
     (let ec = NewProductionEncoderConfig;
          ec = ec\<lparr>EncodeDuration := SecondsDurationEncoder\<rparr>;
          ec = ec\<lparr>TimeKey := ''time''\<rparr>
      in ec)"

datatype EncoderKind = JSONEncoder | ConsoleEncoder

record Encoder =
  kind :: EncoderKind
  config :: EncoderConfig

definition ZapJsonEncoder :: Encoder where
  "ZapJsonEncoder =
     (let ec = zapBaseEncoderConfig;
          ec = ec\<lparr>EncodeTime := (\<lambda>t.
                 let nanos = UnixNano t;
                     millis = int64_of_float64 (math_Trunc
                       (float64_div (float64_of_int64 nanos) (float64_of_int64 time_Millisecond)))
                 in AppendInt64 millis)\<rparr>
      in \<lparr>kind = JSONEncoder, config = ec\<rparr>)"

definition zapConsoleEncoder :: Encoder where
  "zapConsoleEncoder =
     (let ec = zapBaseEncoderConfig;
          ec = ec\<lparr>ConsoleSeparator := '' ''\<rparr>;
          ec = ec\<lparr>EncodeTime := TimeEncoderOfLayout ''15:04:05 PM''\<rparr>;
          ec = ec\<lparr>EncodeLevel := CapitalColorLevelEncoder\<rparr>
      in \<lparr>kind = ConsoleEncoder, config = ec\<rparr>)"

section \<open>Cores and the logger\<close>

text \<open>
  What the package reads from its surroundings: the host name with the error of
  \<^verbatim>\<open>os.Hostname\<close>, the process id, and what \<^verbatim>\<open>zap.Open\<close> returns for a path,
  namely the sink, whether the closer is not \<^verbatim>\<open>nil\<close>, and the error.
\<close>

datatype WriteSyncer = NilSyncer | Stdout | FileSyncer string

record OpenResult =
  sink :: WriteSyncer
  closer :: bool
  err :: "string option"

record Env =
  os_Hostname :: "string \<times> string option"
  os_Getpid :: int
  zap_Open :: "string \<Rightarrow> OpenResult"

datatype FieldType = StringType | Int64Type

record Field =
  Key :: string
  Type :: FieldType
  String :: string
  Integer :: int

text \<open>
  The core made by \<^verbatim>\<open>zapcore.NewCore\<close> holds an encoder, a sink and a level;
  \<^verbatim>\<open>With\<close> returns a copy whose encoder has the fields added, so that every entry
  written through it carries them before its own fields.
\<close>

record Core =
  enc :: Encoder
  out :: WriteSyncer
  enab :: Level
  encFields :: "Field list"

definition NewCore :: "Encoder \<Rightarrow> WriteSyncer \<Rightarrow> Level \<Rightarrow> Core" where
  "NewCore e ws l = \<lparr>enc = e, out = ws, enab = l, encFields = []\<rparr>"

definition With :: "Core \<Rightarrow> Field list \<Rightarrow> Core" where
  "With c fs = c\<lparr>encFields := encFields c @ fs\<rparr>"

definition Enabled :: "Level \<Rightarrow> Level \<Rightarrow> bool" where
  \<comment> \<open>a level as \<^verbatim>\<open>LevelEnabler\<close>: \<^verbatim>\<open>lvl >= l\<close>\<close>
  "Enabled l lvl = (l \<le> lvl)"

definition Write_fields :: "Core \<Rightarrow> Field list \<Rightarrow> Field list" where
  \<comment> \<open>the fields the core's encoder writes for an entry logged with the fields \<open>fs\<close>\<close>
  "Write_fields c fs = encFields c @ fs"

definition attachBaseFields :: "Env \<Rightarrow> Core \<Rightarrow> Core" where
  "attachBaseFields env core =
     (let host = (case os_Hostname env of (h, None) \<Rightarrow> h | (h, Some e) \<Rightarrow> ''unknown'')
      in With core
           [\<lparr>Key = ''hostname'', Type = StringType, String = host, Integer = 0\<rparr>,
            \<lparr>Key = ''pid'', Type = Int64Type, String = [], Integer = os_Getpid env\<rparr>])"

text \<open>
  \<^verbatim>\<open>log.Fatalf\<close> prints the message and ends the process with \<^verbatim>\<open>os.Exit(1)\<close>, so a
  call either returns a value or is fatal; \<open>Fatal c m\<close> tells whether the closer has been
  called before and what has been printed (without the date that the standard logger puts
  in front).
\<close>

datatype 'a Outcome = Return 'a | Fatal bool string

definition newZapFileLogger :: "Env \<Rightarrow> string \<Rightarrow> Level \<Rightarrow> Core Outcome" where
  "newZapFileLogger env file level =
     (let r = zap_Open env file;
          closed = (err r \<noteq> None \<and> closer r)
      in case err r of
           Some e \<Rightarrow> Fatal closed (''could not open log file: '' @ e @ [CHR 0x0A])
         | None \<Rightarrow>
             (let core = NewCore ZapJsonEncoder (sink r) level
              in Return (attachBaseFields env core)))"

definition newZapOutputLogger :: "Env \<Rightarrow> bool \<Rightarrow> Level \<Rightarrow> Core" where
  "newZapOutputLogger env prettyLogging level =
     (let encoder = (if prettyLogging then zapConsoleEncoder else ZapJsonEncoder);
          syncer = Stdout;
          baseCore = NewCore encoder syncer level;
          baseCore = (if \<not> prettyLogging then attachBaseFields env baseCore else baseCore)
      in baseCore)"

text \<open>
  \<^verbatim>\<open>zap.New\<close> starts from a logger that adds no caller and takes stack traces from
  \<^verbatim>\<open>FatalLevel + 1\<close> on, and applies the options in order. \<^verbatim>\<open>zapcore.NewTee\<close> is
  the list of its cores.
\<close>

datatype zap_Option = AddCaller | AddStacktrace Level

record Logger =
  core :: "Core list"
  addCaller :: bool
  addStack :: Level

definition apply_Option :: "zap_Option \<Rightarrow> Logger \<Rightarrow> Logger" where
  "apply_Option opt lg =
     (case opt of AddCaller \<Rightarrow> lg\<lparr>addCaller := True\<rparr>
                | AddStacktrace lvl \<Rightarrow> lg\<lparr>addStack := lvl\<rparr>)"

definition zap_New :: "Core list \<Rightarrow> zap_Option list \<Rightarrow> Logger" where
  "zap_New c opts = fold apply_Option opts \<lparr>core = c, addCaller = False, addStack = FatalLevel + 1\<rparr>"

definition newZapLogger :: "bool \<Rightarrow> Core list \<Rightarrow> Logger" where
  "newZapLogger debug cores =
     (let zapOpts = [];
          zapOpts = (if debug then zapOpts @ [AddCaller] else zapOpts);
          zapOpts = zapOpts @ [AddStacktrace ErrorLevel];
          zapTee = cores
      in zap_New zapTee zapOpts)"

definition New :: "Env \<Rightarrow> bool \<Rightarrow> bool \<Rightarrow> Level \<Rightarrow> string \<Rightarrow> Level \<Rightarrow> Logger Outcome" where
  "New env prettyLogging debug levelOutput fileOutput fileLevel =
     (let cores = [newZapOutputLogger env prettyLogging levelOutput]
      in if fileOutput \<noteq> []
         then (case newZapFileLogger env fileOutput fileLevel of
                 Fatal c m \<Rightarrow> Fatal c m
               | Return fc \<Rightarrow> Return (newZapLogger debug (cores @ [fc])))
         else Return (newZapLogger debug cores))"

text \<open>
  What the logger puts into an entry of level \<open>lvl\<close>: the stack trace \<open>trace\<close> that the
  runtime hands out at the call when the level is enabled for \<^verbatim>\<open>addStack\<close>, and the
  empty string otherwise. Both encoders write the trace of an entry when it is not empty
  and the configuration has a key for it; the JSON encoder writes it under that key.
\<close>

definition entry_Stack :: "Logger \<Rightarrow> string \<Rightarrow> Level \<Rightarrow> string" where
  "entry_Stack lg trace lvl = (if Enabled (addStack lg) lvl then trace else [])"

definition stacktrace_field :: "Core \<Rightarrow> string \<Rightarrow> (string \<times> string) option" where
  "stacktrace_field c stack =
     (if stack \<noteq> [] \<and> StacktraceKey (config (enc c)) \<noteq> []
      then Some (StacktraceKey (config (enc c)), stack) else None)"

definition base_field_keys :: "string list" where
  "base_field_keys = [''hostname'', ''pid'']"

section \<open>The level parser: case variants, order, the unknown level\<close>

lemmas Level_defs =
  DebugLevel_def InfoLevel_def WarnLevel_def ErrorLevel_def DPanicLevel_def PanicLevel_def
  FatalLevel_def

lemma unicode_ToUpper_capital:
  assumes "nonascii_stays tbl" and "65 \<le> u" and "u \<le> 90"
  shows "(unicode_ToUpper tbl c = u) = matches_letter c u"
proof (cases "c < 128")
  case True
  with assms(2,3) show ?thesis
    by (auto simp: unicode_ToUpper_def matches_letter_def)
next
  case False
  then have big: "128 \<le> c" by simp
  show ?thesis
  proof (cases "c = 305 \<or> c = 383")
    case True
    with assms(2,3) show ?thesis
      by (auto simp: unicode_ToUpper_def matches_letter_def)
  next
    case other: False
    from assms(1) big have "128 \<le> tbl c"
      by (simp add: nonascii_stays_def)
    with other big assms(2,3) show ?thesis
      by (auto simp: unicode_ToUpper_def matches_letter_def)
  qed
qed

lemma strings_ToUpper_capital:
  assumes "nonascii_stays tbl"
  shows "capital_word name \<Longrightarrow> (strings_ToUpper tbl s = name) = matches_name s name"
proof (induction s arbitrary: name)
  case Nil
  then show ?case
    by (auto simp: strings_ToUpper_def matches_name_def)
next
  case (Cons c s)
  show ?case
  proof (cases name)
    case Nil
    then show ?thesis
      by (simp add: strings_ToUpper_def matches_name_def)
  next
    case (Cons u rest)
    with Cons.prems have u: "65 \<le> u" "u \<le> 90" and rest: "capital_word rest"
      by (simp_all add: capital_word_def)
    from Cons.IH [OF rest] unicode_ToUpper_capital [OF assms u, of c] Cons
    show ?thesis
      by (simp add: strings_ToUpper_def matches_name_def)
  qed
qed

lemma capital_names:
  "capital_word (runes ''DEBUG'')" "capital_word (runes ''INFO'')"
  "capital_word (runes ''WARNING'')" "capital_word (runes ''ERROR'')"
  "capital_word (runes ''FATAL'')" "capital_word (runes ''PANIC'')"
  by (simp_all add: capital_word_def)


lemma parser_cases:
  assumes "nonascii_stays tbl"
  shows "ZapLogLevelFromString tbl s =
     (if matches_name s (runes ''DEBUG'') then (DebugLevel, None)
      else if matches_name s (runes ''INFO'') then (InfoLevel, None)
      else if matches_name s (runes ''WARNING'') then (WarnLevel, None)
      else if matches_name s (runes ''ERROR'') then (ErrorLevel, None)
      else if matches_name s (runes ''FATAL'') then (FatalLevel, None)
      else if matches_name s (runes ''PANIC'') then (PanicLevel, None)
      else (- 1, Some (runes ''unknown log level: '' @ s)))"
  unfolding ZapLogLevelFromString_def Let_def
  by (simp only: strings_ToUpper_capital [OF assms] capital_names)

lemma matches_letter_undot:
  assumes "65 \<le> u" and "u \<le> 90" and "u \<noteq> 83"
  shows "matches_letter c u = letter_variant (if c = 305 then 105 else c) u"
  using assms by (auto simp: matches_letter_def letter_variant_def)

lemma matches_name_undot:
  "capital_word name \<Longrightarrow> 83 \<notin> set name \<Longrightarrow> matches_name s name = case_variant (undot s) name"
proof (induction s arbitrary: name)
  case Nil
  then show ?case
    by (simp add: matches_name_def case_variant_def undot_def)
next
  case (Cons c s)
  show ?case
  proof (cases name)
    case Nil
    then show ?thesis
      by (simp add: matches_name_def case_variant_def undot_def)
  next
    case (Cons u rest)
    with Cons.prems have u: "65 \<le> u" "u \<le> 90" "u \<noteq> 83"
      and rest: "capital_word rest" "83 \<notin> set rest"
      by (auto simp: capital_word_def)
    from Cons.IH [OF rest] have "list_all2 matches_letter s rest = list_all2 letter_variant (undot s) rest"
      by (simp add: matches_name_def case_variant_def)
    with matches_letter_undot [OF u, of c] Cons show ?thesis
      by (simp add: matches_name_def case_variant_def undot_def)
  qed
qed

lemma names_without_S:
  "83 \<notin> set (runes ''DEBUG'')" "83 \<notin> set (runes ''INFO'')" "83 \<notin> set (runes ''WARNING'')"
  "83 \<notin> set (runes ''ERROR'')" "83 \<notin> set (runes ''FATAL'')" "83 \<notin> set (runes ''PANIC'')"
  by simp_all

lemma parser_cases_undot:
  assumes "nonascii_stays tbl"
  shows "ZapLogLevelFromString tbl s =
     (if case_variant (undot s) (runes ''DEBUG'') then (DebugLevel, None)
      else if case_variant (undot s) (runes ''INFO'') then (InfoLevel, None)
      else if case_variant (undot s) (runes ''WARNING'') then (WarnLevel, None)
      else if case_variant (undot s) (runes ''ERROR'') then (ErrorLevel, None)
      else if case_variant (undot s) (runes ''FATAL'') then (FatalLevel, None)
      else if case_variant (undot s) (runes ''PANIC'') then (PanicLevel, None)
      else (- 1, Some (runes ''unknown log level: '' @ s)))"
  unfolding parser_cases [OF assms]
  by (simp only:
      matches_name_undot [OF capital_names(1) names_without_S(1)]
      matches_name_undot [OF capital_names(2) names_without_S(2)]
      matches_name_undot [OF capital_names(3) names_without_S(3)]
      matches_name_undot [OF capital_names(4) names_without_S(4)]
      matches_name_undot [OF capital_names(5) names_without_S(5)]
      matches_name_undot [OF capital_names(6) names_without_S(6)])

text \<open>
  The dotless i is a lower-case form of \<open>I\<close> for \<^verbatim>\<open>strings.ToUpper\<close>, so the parser
  takes a spelling of \<open>info\<close> that begins with it.
\<close>

lemma dotless_i_is_accepted:
  "ZapLogLevelFromString tbl [305, 110, 102, 111] = (InfoLevel, None)"
  by (simp add: ZapLogLevelFromString_def strings_ToUpper_def unicode_ToUpper_def)

text \<open>
  C1 as the specification states it is false. The string of U+0131 (dotless i) followed
  by \<open>nfo\<close> is a case variant of none of the six names, and the parser returns the
  level of INFO and no error for it.
\<close>

theorem dotless_info_counterexample:
  "\<not> case_variant [305, 110, 102, 111] (runes ''DEBUG'') \<and>
   \<not> case_variant [305, 110, 102, 111] (runes ''INFO'') \<and>
   \<not> case_variant [305, 110, 102, 111] (runes ''WARNING'') \<and>
   \<not> case_variant [305, 110, 102, 111] (runes ''ERROR'') \<and>
   \<not> case_variant [305, 110, 102, 111] (runes ''FATAL'') \<and>
   \<not> case_variant [305, 110, 102, 111] (runes ''PANIC'') \<and>
   ZapLogLevelFromString id [305, 110, 102, 111] = (InfoLevel, None) \<and>
   snd (ZapLogLevelFromString id [305, 110, 102, 111]) = None"
  by (simp add: case_variant_def letter_variant_def dotless_i_is_accepted)

text \<open>
  C1, amended. A string that, with every dotless i read as \<open>i\<close>, is a case variant of
  one of the six names yields the level of that name and no error; every other string
  yields an error whose message contains the string.
\<close>

theorem ZapLogLevelFromString_case_variants:
  assumes "nonascii_stays tbl"
  shows "(\<forall>(name, lvl) \<in> set level_names.
            case_variant (undot s) name \<longrightarrow> ZapLogLevelFromString tbl s = (lvl, None)) \<and>
         ((\<forall>(name, lvl) \<in> set level_names. \<not> case_variant (undot s) name) \<longrightarrow>
            (\<exists>lvl msg. ZapLogLevelFromString tbl s = (lvl, Some msg) \<and> sublist s msg))"
proof (intro conjI impI)
  show "\<forall>(name, lvl) \<in> set level_names.
          case_variant (undot s) name \<longrightarrow> ZapLogLevelFromString tbl s = (lvl, None)"
  proof clarify
    fix name lvl
    assume mem: "(name, lvl) \<in> set level_names" and cv: "case_variant (undot s) name"
    from mem capital_names names_without_S have "capital_word name" and "83 \<notin> set name"
      by (auto simp: level_names_def)
    with cv matches_name_undot have "matches_name s name"
      by simp
    with \<open>capital_word name\<close> strings_ToUpper_capital [OF assms]
    have up: "strings_ToUpper tbl s = name"
      by simp
    from mem show "ZapLogLevelFromString tbl s = (lvl, None)"
      unfolding ZapLogLevelFromString_def Let_def up
      by (auto simp: level_names_def)
  qed
next
  assume "\<forall>(name, lvl) \<in> set level_names. \<not> case_variant (undot s) name"
  then have "ZapLogLevelFromString tbl s = (- 1, Some (runes ''unknown log level: '' @ s))"
    by (simp add: level_names_def parser_cases_undot [OF assms])
  then show "\<exists>lvl msg. ZapLogLevelFromString tbl s = (lvl, Some msg) \<and> sublist s msg"
    by (metis sublist_appendI append_Nil2)
qed

theorem ZapLogLevelFromString_case_variants_witness:
  "nonascii_stays id \<and> case_variant (undot (runes ''Warning'')) (runes ''WARNING'') \<and>
   ZapLogLevelFromString id (runes ''Warning'') = (WarnLevel, None) \<and>
   case_variant (undot [305, 110, 102, 111]) (runes ''INFO'') \<and>
   ZapLogLevelFromString id [305, 110, 102, 111] = (InfoLevel, None) \<and>
   list_all (\<lambda>(name, lvl). \<not> case_variant (undot (runes ''verbose'')) name) level_names \<and>
   (\<exists>lvl msg. ZapLogLevelFromString id (runes ''verbose'') = (lvl, Some msg) \<and>
      sublist (runes ''verbose'') msg)"
proof -
  have t: "nonascii_stays id"
    by (simp add: nonascii_stays_def)
  have v: "case_variant (undot (runes ''Warning'')) (runes ''WARNING'')"
    by (simp add: case_variant_def letter_variant_def undot_def)
  have d: "case_variant (undot [305, 110, 102, 111]) (runes ''INFO'')"
    by (simp add: case_variant_def letter_variant_def undot_def)
  have n: "\<forall>(name, lvl) \<in> set level_names. \<not> case_variant (undot (runes ''verbose'')) name"
    by (simp add: level_names_def case_variant_def letter_variant_def undot_def)
  from ZapLogLevelFromString_case_variants [OF t, of "runes ''Warning''"] v
  have "ZapLogLevelFromString id (runes ''Warning'') = (WarnLevel, None)"
    by (simp add: level_names_def)
  moreover from ZapLogLevelFromString_case_variants [OF t, of "[305, 110, 102, 111]"] d
  have "ZapLogLevelFromString id [305, 110, 102, 111] = (InfoLevel, None)"
    by (simp add: level_names_def)
  moreover from ZapLogLevelFromString_case_variants [OF t, of "runes ''verbose''"] n
  have "\<exists>lvl msg. ZapLogLevelFromString id (runes ''verbose'') = (lvl, Some msg) \<and>
      sublist (runes ''verbose'') msg"
    by blast
  moreover from n
  have "list_all (\<lambda>(name, lvl). \<not> case_variant (undot (runes ''verbose'')) name) level_names"
    by (simp add: list_all_iff)
  ultimately show ?thesis using t v d by blast
qed

text \<open>
  Without a dotless i in it a string is its own reading, so every string of ASCII that is
  no case variant of a name is refused.
\<close>

lemma undot_without_dotless_i: "305 \<notin> set s \<Longrightarrow> undot s = s"
  by (induction s) (auto simp: undot_def)

text \<open>
  C9 as the specification states it, in the order DEBUG, INFO, WARNING, ERROR, FATAL,
  PANIC, is false: the parser's level for FATAL is above its level for PANIC.
\<close>

theorem spec_level_order_counterexample:
  "\<not> (fst (ZapLogLevelFromString id (runes ''DEBUG'')) < fst (ZapLogLevelFromString id (runes ''INFO'')) \<and>
      fst (ZapLogLevelFromString id (runes ''INFO'')) < fst (ZapLogLevelFromString id (runes ''WARNING'')) \<and>
      fst (ZapLogLevelFromString id (runes ''WARNING'')) < fst (ZapLogLevelFromString id (runes ''ERROR'')) \<and>
      fst (ZapLogLevelFromString id (runes ''ERROR'')) < fst (ZapLogLevelFromString id (runes ''FATAL'')) \<and>
      fst (ZapLogLevelFromString id (runes ''FATAL'')) < fst (ZapLogLevelFromString id (runes ''PANIC'')))"
  by (simp add: ZapLogLevelFromString_def strings_ToUpper_def unicode_ToUpper_def Level_defs)

text \<open>
  C9, amended. The levels the parser returns for the six names are ordered
  DEBUG < INFO < WARNING < ERROR < PANIC < FATAL, whatever the case table outside ASCII.
\<close>

theorem parser_level_order:
  "fst (ZapLogLevelFromString tbl (runes ''DEBUG'')) < fst (ZapLogLevelFromString tbl (runes ''INFO'')) \<and>
   fst (ZapLogLevelFromString tbl (runes ''INFO'')) < fst (ZapLogLevelFromString tbl (runes ''WARNING'')) \<and>
   fst (ZapLogLevelFromString tbl (runes ''WARNING'')) < fst (ZapLogLevelFromString tbl (runes ''ERROR'')) \<and>
   fst (ZapLogLevelFromString tbl (runes ''ERROR'')) < fst (ZapLogLevelFromString tbl (runes ''PANIC'')) \<and>
   fst (ZapLogLevelFromString tbl (runes ''PANIC'')) < fst (ZapLogLevelFromString tbl (runes ''FATAL''))"
  by (simp add: ZapLogLevelFromString_def strings_ToUpper_def unicode_ToUpper_def Level_defs)

text \<open>
  C10. For a string that the parser matches with none of the six names it returns the
  level -1 together with the error, and -1 is the value of the debug level.
\<close>

theorem unknown_level_is_DebugLevel:
  assumes "nonascii_stays tbl"
    and "\<forall>(name, lvl) \<in> set level_names. \<not> matches_name s name"
  shows "fst (ZapLogLevelFromString tbl s) = - 1 \<and>
         snd (ZapLogLevelFromString tbl s) \<noteq> None \<and>
         fst (ZapLogLevelFromString tbl s) = DebugLevel"
  using assms(2)
  by (simp add: level_names_def parser_cases [OF assms(1)] DebugLevel_def)

theorem unknown_level_is_DebugLevel_witness:
  "nonascii_stays id \<and>
   list_all (\<lambda>(name, lvl). \<not> matches_name (runes ''trace'') name) level_names \<and>
   fst (ZapLogLevelFromString id (runes ''trace'')) = - 1 \<and>
   snd (ZapLogLevelFromString id (runes ''trace'')) \<noteq> None \<and>
   fst (ZapLogLevelFromString id (runes ''trace'')) = DebugLevel"
proof -
  have t: "nonascii_stays id"
    by (simp add: nonascii_stays_def)
  have n: "\<forall>(name, lvl) \<in> set level_names. \<not> matches_name (runes ''trace'') name"
    by (simp add: level_names_def matches_name_def matches_letter_def)
  from n have "list_all (\<lambda>(name, lvl). \<not> matches_name (runes ''trace'') name) level_names"
    by (simp add: list_all_iff)
  with unknown_level_is_DebugLevel [OF t n] t show ?thesis by blast
qed

section \<open>The factory: failure to open the file, and the cores of a logger\<close>

lemma base_config_keys:
  "StacktraceKey (config ZapJsonEncoder) = ''stacktrace''"
  "StacktraceKey (config zapConsoleEncoder) = ''stacktrace''"
  "TimeKey (config ZapJsonEncoder) = ''time''"
  "kind ZapJsonEncoder = JSONEncoder" "kind zapConsoleEncoder = ConsoleEncoder"
  by (simp_all add: ZapJsonEncoder_def zapConsoleEncoder_def zapBaseEncoderConfig_def
      NewProductionEncoderConfig_def)

lemma attachBaseFields_simps:
  "enc (attachBaseFields env c) = enc c" "out (attachBaseFields env c) = out c"
  "enab (attachBaseFields env c) = enab c"
  "map Key (encFields (attachBaseFields env c)) = map Key (encFields c) @ base_field_keys"
  by (simp_all add: attachBaseFields_def With_def base_field_keys_def split: prod.splits option.splits)

lemma newZapLogger_simps:
  "core (newZapLogger debug cores) = cores"
  "addCaller (newZapLogger debug cores) = debug"
  "addStack (newZapLogger debug cores) = ErrorLevel"
  by (simp_all add: newZapLogger_def zap_New_def apply_Option_def)

lemma newZapFileLogger_cases:
  "newZapFileLogger env file level =
     (case err (zap_Open env file) of
        Some e \<Rightarrow> Fatal (closer (zap_Open env file)) (''could not open log file: '' @ e @ [CHR 0x0A])
      | None \<Rightarrow> Return (attachBaseFields env (NewCore ZapJsonEncoder (sink (zap_Open env file)) level)))"
  by (simp add: newZapFileLogger_def Let_def split: option.splits)

text \<open>
  C2. When the log file cannot be opened, the factory is fatal: the closer is called if
  there is one, the message with the error is printed, the process ends, and no logger is
  returned.
\<close>

theorem New_open_failure_is_fatal:
  assumes "fileOutput \<noteq> []" and "err (zap_Open env fileOutput) = Some e"
  shows "New env prettyLogging debug levelOutput fileOutput fileLevel =
           Fatal (closer (zap_Open env fileOutput)) (''could not open log file: '' @ e @ [CHR 0x0A]) \<and>
         (\<forall>lg. New env prettyLogging debug levelOutput fileOutput fileLevel \<noteq> Return lg)"
  using assms by (simp add: New_def newZapFileLogger_cases)

theorem New_open_failure_is_fatal_witness:
  "New \<lparr>os_Hostname = (''host'', None), os_Getpid = 7,
        zap_Open = (\<lambda>p. \<lparr>sink = NilSyncer, closer = True, err = Some ''permission denied''\<rparr>)\<rparr>
     False False InfoLevel ''/var/log/router.log'' ErrorLevel =
     Fatal True (''could not open log file: permission denied'' @ [CHR 0x0A])"
  using New_open_failure_is_fatal
    [of "''/var/log/router.log''"
        "\<lparr>os_Hostname = (''host'', None), os_Getpid = 7,
          zap_Open = (\<lambda>p. \<lparr>sink = NilSyncer, closer = True, err = Some ''permission denied''\<rparr>)\<rparr>"
        "''permission denied''" False False InfoLevel ErrorLevel]
  by simp

text \<open>
  C3. A logger that the factory returns has one core, the console core, when the file path
  is empty, and two cores, the console core and the file core, when it is not; and the
  factory returns a logger whenever the path is empty or the file opens.
\<close>

theorem New_sinks:
  "(fileOutput = [] \<longrightarrow>
      (\<exists>lg. New env prettyLogging debug levelOutput fileOutput fileLevel = Return lg \<and>
         core lg = [newZapOutputLogger env prettyLogging levelOutput] \<and> length (core lg) = 1)) \<and>
   (fileOutput \<noteq> [] \<longrightarrow> err (zap_Open env fileOutput) = None \<longrightarrow>
      (\<exists>lg fc. New env prettyLogging debug levelOutput fileOutput fileLevel = Return lg \<and>
         newZapFileLogger env fileOutput fileLevel = Return fc \<and>
         core lg = [newZapOutputLogger env prettyLogging levelOutput, fc] \<and>
         length (core lg) = 2)) \<and>
   (\<forall>lg. New env prettyLogging debug levelOutput fileOutput fileLevel = Return lg \<longrightarrow>
      length (core lg) = (if fileOutput = [] then 1 else 2) \<and>
      out (hd (core lg)) = Stdout)"
  by (auto simp: New_def newZapFileLogger_cases newZapLogger_simps newZapOutputLogger_def
      NewCore_def attachBaseFields_simps Let_def split: option.splits)

theorem New_sinks_witness:
  "(\<exists>lg. New \<lparr>os_Hostname = (''host'', None), os_Getpid = 7,
             zap_Open = (\<lambda>p. \<lparr>sink = FileSyncer p, closer = True, err = None\<rparr>)\<rparr>
           True False InfoLevel [] ErrorLevel = Return lg \<and> length (core lg) = 1) \<and>
   (\<exists>lg. New \<lparr>os_Hostname = (''host'', None), os_Getpid = 7,
             zap_Open = (\<lambda>p. \<lparr>sink = FileSyncer p, closer = True, err = None\<rparr>)\<rparr>
           True False InfoLevel ''router.log'' ErrorLevel = Return lg \<and> length (core lg) = 2)"
  using New_sinks
    [of "[]" "\<lparr>os_Hostname = (''host'', None), os_Getpid = 7,
          zap_Open = (\<lambda>p. \<lparr>sink = FileSyncer p, closer = True, err = None\<rparr>)\<rparr>"
        True False InfoLevel ErrorLevel]
    New_sinks
    [of "''router.log''" "\<lparr>os_Hostname = (''host'', None), os_Getpid = 7,
          zap_Open = (\<lambda>p. \<lparr>sink = FileSyncer p, closer = True, err = None\<rparr>)\<rparr>"
        True False InfoLevel ErrorLevel]
  by auto

section \<open>Base fields, the file core and stack traces\<close>

text \<open>
  C5. The console core has the JSON encoder exactly when \<open>prettyLogging\<close> is off, and
  exactly then the host name and the process id are written with every entry; the pretty
  console core writes an entry's own fields and nothing else.
\<close>

theorem console_base_fields:
  "(kind (enc (newZapOutputLogger env prettyLogging level)) = JSONEncoder) = (\<not> prettyLogging) \<and>
   (\<not> prettyLogging \<longrightarrow>
      map Key (Write_fields (newZapOutputLogger env prettyLogging level) fs) =
        base_field_keys @ map Key fs) \<and>
   (prettyLogging \<longrightarrow> Write_fields (newZapOutputLogger env prettyLogging level) fs = fs)"
  by (simp add: newZapOutputLogger_def Let_def NewCore_def Write_fields_def
      attachBaseFields_simps base_config_keys)

theorem console_base_fields_witness:
  "map Key (Write_fields (newZapOutputLogger
       \<lparr>os_Hostname = (''host'', None), os_Getpid = 7,
        zap_Open = (\<lambda>p. \<lparr>sink = FileSyncer p, closer = True, err = None\<rparr>)\<rparr> False InfoLevel) []) =
     [''hostname'', ''pid''] \<and>
   Write_fields (newZapOutputLogger
       \<lparr>os_Hostname = (''host'', None), os_Getpid = 7,
        zap_Open = (\<lambda>p. \<lparr>sink = FileSyncer p, closer = True, err = None\<rparr>)\<rparr> True InfoLevel) [] = []"
  using console_base_fields
    [of "\<lparr>os_Hostname = (''host'', None), os_Getpid = 7,
          zap_Open = (\<lambda>p. \<lparr>sink = FileSyncer p, closer = True, err = None\<rparr>)\<rparr>" False InfoLevel "[]"]
    console_base_fields
    [of "\<lparr>os_Hostname = (''host'', None), os_Getpid = 7,
          zap_Open = (\<lambda>p. \<lparr>sink = FileSyncer p, closer = True, err = None\<rparr>)\<rparr>" True InfoLevel "[]"]
  by (simp add: base_field_keys_def)

lemma base_field_values:
  "encFields (attachBaseFields env (NewCore e ws l)) =
     [\<lparr>Key = ''hostname'', Type = StringType,
       String = (if snd (os_Hostname env) = None then fst (os_Hostname env) else ''unknown''),
       Integer = 0\<rparr>,
      \<lparr>Key = ''pid'', Type = Int64Type, String = [], Integer = os_Getpid env\<rparr>]"
  by (simp add: attachBaseFields_def With_def NewCore_def split: prod.splits option.splits)

text \<open>
  C6. With a file path that is not empty and a file that opens, the second core of the
  logger writes to the opened file with the JSON encoder at \<open>fileLevel\<close>, whatever
  \<open>prettyLogging\<close> is, and writes the host name and the process id with every entry.
\<close>

theorem file_core_is_json_with_base_fields:
  assumes "fileOutput \<noteq> []" and "err (zap_Open env fileOutput) = None"
  shows "\<exists>lg c fc. New env prettyLogging debug levelOutput fileOutput fileLevel = Return lg \<and>
           core lg = [c, fc] \<and> enc fc = ZapJsonEncoder \<and> kind (enc fc) = JSONEncoder \<and>
           enab fc = fileLevel \<and> out fc = sink (zap_Open env fileOutput) \<and>
           (\<forall>fs. map Key (Write_fields fc fs) = base_field_keys @ map Key fs)"
  using assms
  by (simp add: New_def newZapFileLogger_cases newZapLogger_simps NewCore_def Write_fields_def
      attachBaseFields_simps base_config_keys)

theorem file_core_is_json_with_base_fields_witness:
  "\<exists>lg c fc. New \<lparr>os_Hostname = (''host'', None), os_Getpid = 7,
                 zap_Open = (\<lambda>p. \<lparr>sink = FileSyncer p, closer = True, err = None\<rparr>)\<rparr>
               True False InfoLevel ''router.log'' ErrorLevel = Return lg \<and>
     core lg = [c, fc] \<and> enc fc = ZapJsonEncoder \<and> kind (enc fc) = JSONEncoder \<and>
     enab fc = ErrorLevel \<and> out fc = FileSyncer ''router.log'' \<and>
     (\<forall>fs. map Key (Write_fields fc fs) = base_field_keys @ map Key fs)"
  using file_core_is_json_with_base_fields
    [of "''router.log''" "\<lparr>os_Hostname = (''host'', None), os_Getpid = 7,
          zap_Open = (\<lambda>p. \<lparr>sink = FileSyncer p, closer = True, err = None\<rparr>)\<rparr>"
        True False InfoLevel ErrorLevel]
  by simp

lemma New_core_keys:
  assumes "New env prettyLogging debug levelOutput fileOutput fileLevel = Return lg"
    and "c \<in> set (core lg)"
  shows "StacktraceKey (config (enc c)) = ''stacktrace''"
  using assms
  by (auto simp: New_def newZapFileLogger_cases newZapLogger_simps newZapOutputLogger_def Let_def
      NewCore_def attachBaseFields_simps base_config_keys split: if_splits option.splits)

lemma New_addStack:
  assumes "New env prettyLogging debug levelOutput fileOutput fileLevel = Return lg"
  shows "addStack lg = ErrorLevel" and "addCaller lg = debug"
  using assms
  by (auto simp: New_def Let_def newZapFileLogger_cases newZapLogger_simps
      split: if_splits option.splits)

text \<open>
  C7. Whatever \<open>debug\<close> is, a logger that the factory returns puts the stack trace into
  every entry of level error or above, and every core writes it under the key
  \<open>stacktrace\<close>; an entry below error gets no trace and no core writes one. The trace
  that the runtime hands out is taken to be non-empty.
\<close>

theorem stacktrace_from_ErrorLevel:
  assumes "New env prettyLogging debug levelOutput fileOutput fileLevel = Return lg"
    and "trace \<noteq> []"
  shows "(ErrorLevel \<le> lvl \<longrightarrow>
            entry_Stack lg trace lvl \<noteq> [] \<and>
            (\<forall>c \<in> set (core lg).
               stacktrace_field c (entry_Stack lg trace lvl) = Some (''stacktrace'', trace))) \<and>
         (lvl < ErrorLevel \<longrightarrow>
            entry_Stack lg trace lvl = [] \<and>
            (\<forall>c \<in> set (core lg). stacktrace_field c (entry_Stack lg trace lvl) = None))"
  using assms(2) New_addStack(1) [OF assms(1)] New_core_keys [OF assms(1)]
  by (auto simp: entry_Stack_def Enabled_def stacktrace_field_def)

theorem stacktrace_from_ErrorLevel_witness:
  "entry_Stack (newZapLogger True [newZapOutputLogger
       \<lparr>os_Hostname = (''host'', None), os_Getpid = 7,
        zap_Open = (\<lambda>p. \<lparr>sink = FileSyncer p, closer = True, err = None\<rparr>)\<rparr> False InfoLevel])
     ''main.main'' ErrorLevel = ''main.main'' \<and>
   entry_Stack (newZapLogger True [newZapOutputLogger
       \<lparr>os_Hostname = (''host'', None), os_Getpid = 7,
        zap_Open = (\<lambda>p. \<lparr>sink = FileSyncer p, closer = True, err = None\<rparr>)\<rparr> False InfoLevel])
     ''main.main'' WarnLevel = []"
proof -
  let ?env = "\<lparr>os_Hostname = (''host'', None), os_Getpid = 7,
        zap_Open = (\<lambda>p. \<lparr>sink = FileSyncer p, closer = True, err = None\<rparr>)\<rparr>"
  let ?lg = "newZapLogger True [newZapOutputLogger ?env False InfoLevel]"
  have r: "New ?env False True InfoLevel [] DebugLevel = Return ?lg"
    by (simp add: New_def)
  have t: "''main.main'' \<noteq> []" by simp
  from stacktrace_from_ErrorLevel [OF r t, of ErrorLevel]
    stacktrace_from_ErrorLevel [OF r t, of WarnLevel]
  show ?thesis
    by (simp add: stacktrace_field_def ErrorLevel_def WarnLevel_def entry_Stack_def split: if_splits)
qed

section \<open>The time encoders at concrete instants\<close>

lemma bitlen_values:
  "bitlen 1 = 1" "bitlen 1000000 = 20" "bitlen 1699999999999999999 = 61"
  "bitlen 6640625000000000 = 53" "bitlen 8589934592000000 = 53"
  "bitlen 1699999999999000000 = 61" "bitlen 6640624999996094 = 53"
  by (simp_all add: compute_bitlen)

lemmas float64_defs =
  float64_of_int64_def float64_div_def float64_of_ratio_def scale2_def round_half_even_def
  math_Trunc_def int64_of_float64_def Let_def

lemma float64_of_nanos:
  "float64_of_int64 1699999999999999999 = Float64 6640625000000000 8"
  by (simp add: float64_defs bitlen_values)

lemma float64_of_Millisecond:
  "float64_of_int64 time_Millisecond = Float64 8589934592000000 (- 33)"
  by (simp add: float64_defs bitlen_values time_Millisecond_def)

lemma float64_quotient:
  "float64_div (Float64 6640625000000000 8) (Float64 8589934592000000 (- 33)) =
     Float64 6963200000000000 (- 12)"
  by (simp add: float64_defs bitlen_values)

lemma json_time_on_a_millisecond:
  "EncodeTime (config ZapJsonEncoder) \<lparr>UnixNano = 1699999999999000000, zoneOffset = 0\<rparr> =
     AppendInt64 1699999999999"
proof -
  have a: "float64_of_int64 1699999999999000000 = Float64 6640624999996094 8"
    by (simp add: float64_defs bitlen_values)
  have q: "float64_div (Float64 6640624999996094 8) (Float64 8589934592000000 (- 33)) =
     Float64 6963199999995904 (- 12)"
    by (simp add: float64_defs bitlen_values)
  have "int64_of_float64 (math_Trunc (Float64 6963199999995904 (- 12))) = 1699999999999"
    by (simp add: math_Trunc_def int64_of_float64_def)
  then show ?thesis
    by (simp add: ZapJsonEncoder_def zapBaseEncoderConfig_def a q float64_of_Millisecond)
qed

text \<open>
  C4. The JSON encoder writes the time under the key \<open>time\<close>. At the instant
  1699999999999999999 ns, one nanosecond before a full second, the conversion of the
  nanoseconds to \<^verbatim>\<open>float64\<close> rounds up to 1700000000000000000, and the encoder writes
  1700000000000 where the quotient of the nanoseconds by one million is 1699999999999.
\<close>

theorem json_time_rounds_up:
  "TimeKey (config ZapJsonEncoder) = ''time'' \<and>
   EncodeTime (config ZapJsonEncoder) \<lparr>UnixNano = 1699999999999999999, zoneOffset = 0\<rparr> =
     AppendInt64 1700000000000 \<and>
   (1699999999999999999 :: int) div time_Millisecond = 1699999999999"
proof -
  have "int64_of_float64 (math_Trunc (Float64 6963200000000000 (- 12))) = 1700000000000"
    by (simp add: math_Trunc_def int64_of_float64_def)
  then have "EncodeTime (config ZapJsonEncoder) \<lparr>UnixNano = 1699999999999999999, zoneOffset = 0\<rparr> =
     AppendInt64 1700000000000"
    by (simp add: ZapJsonEncoder_def zapBaseEncoderConfig_def float64_of_nanos
        float64_of_Millisecond float64_quotient)
  then show ?thesis
    by (simp add: base_config_keys time_Millisecond_def)
qed

lemmas clock_defs =
  Hour_def Minute_def Second_def secondOfDay_def time_Second_def pad2_def digit_def hour12_def

text \<open>
  C8. The console encoder separates with one space. Its layout writes the hour of the day
  from 00 to 23 before the mark: at 22:13:20 it writes \<open>22:13:20 PM\<close>, where the layout of
  a 12-hour clock gives \<open>10:13:20 PM\<close>.
\<close>

theorem console_time_hour_of_day:
  "ConsoleSeparator (config zapConsoleEncoder) = '' '' \<and>
   EncodeTime (config zapConsoleEncoder) \<lparr>UnixNano = 1700000000000000000, zoneOffset = 0\<rparr> =
     AppendString ''22:13:20 PM'' \<and>
   time_Format ''03:04:05 PM'' \<lparr>UnixNano = 1700000000000000000, zoneOffset = 0\<rparr> =
     ''10:13:20 PM''"
  by (simp add: zapConsoleEncoder_def zapBaseEncoderConfig_def TimeEncoderOfLayout_def clock_defs)

lemma Hour_range: "Hour t < 24"
proof -
  have "secondOfDay t < 86400"
    by (simp add: secondOfDay_def nat_less_iff)
  then show ?thesis
    by (simp add: Hour_def less_mult_imp_div_less)
qed

end
